theory Spec2Isabelle
  imports Main
begin

section \<open>Slack credential blocks (prefect_slack/credentials.py)\<close>

subsection \<open>Secrets, client handles, responses, exceptions\<close>

text \<open>
  \<^verbatim>\<open>pydantic.SecretStr\<close>: a wrapped string, read only through
  \<^verbatim>\<open>get_secret_value()\<close>.
\<close>

datatype SecretStr = SecretStr string

fun get_secret_value :: "SecretStr \<Rightarrow> string" where
  "get_secret_value (SecretStr s) = s"

text \<open>
  The three client classes of the Slack SDK that the module constructs, each with the one
  keyword argument the source passes (\<^verbatim>\<open>token=\<close> or \<^verbatim>\<open>url=\<close>).
\<close>

datatype client =
    AsyncWebClient string
  | AsyncWebhookClient string
  | WebhookClient string

text \<open>
  What a constructed client keeps of its argument. The constructor of the SDK's web
  client stores \<^verbatim>\<open>token.strip()\<close>, the token without its leading and trailing
  whitespace; the webhook clients store the URL as it is passed.

  \<^verbatim>\<open>str.strip()\<close> removes the characters for which \<^verbatim>\<open>str.isspace()\<close> holds, given here
  by code point: U+0009 to U+000D, U+001C to U+0020, U+0085, U+00A0, U+1680, U+2000 to
  U+200A, U+2028, U+2029, U+202F, U+205F and U+3000. A \<open>char\<close> is read as the code point
  of its number.
\<close>

definition isspace :: "nat \<Rightarrow> bool" where
  "isspace cp =
     ((9 \<le> cp \<and> cp \<le> 13) \<or> (28 \<le> cp \<and> cp \<le> 32) \<or> cp = 133 \<or> cp = 160
      \<or> cp = 5760 \<or> (8192 \<le> cp \<and> cp \<le> 8202) \<or> cp = 8232 \<or> cp = 8233
      \<or> cp = 8239 \<or> cp = 8287 \<or> cp = 12288)"

definition strip :: "string \<Rightarrow> string" where
  "strip s =
     rev (dropWhile (\<lambda>c. isspace (of_char c)) (rev (dropWhile (\<lambda>c. isspace (of_char c)) s)))"

fun credential_of :: "client \<Rightarrow> string" where
  "credential_of (AsyncWebClient t) = strip t"
| "credential_of (AsyncWebhookClient u) = u"
| "credential_of (WebhookClient u) = u"

fun is_async :: "client \<Rightarrow> bool" where
  "is_async (AsyncWebClient _) = True"
| "is_async (AsyncWebhookClient _) = True"
| "is_async (WebhookClient _) = False"

text \<open>
  A constructed Python object has an identity of its own: a handle is a client value
  together with the identity it received when it was allocated.
\<close>

record handle =
  ident :: nat
  obj :: client

text \<open>The outcome of a send: \<^verbatim>\<open>response.status_code\<close> and \<^verbatim>\<open>response.body\<close>.\<close>

record response =
  status_code :: int
  body :: string

text \<open>
  Exceptions that can leave \<^verbatim>\<open>notify\<close>: the host's \<^verbatim>\<open>NotificationError\<close>, the
  builtin \<^verbatim>\<open>Exception\<close> that replaces it when the import fails, and whatever the client
  library raises from \<^verbatim>\<open>send\<close>.
\<close>

datatype exn =
    NotificationError string
  | Exception string
  | TransportError string

subsection \<open>The blocks and the state around them\<close>

record SlackCredentials =
  token :: SecretStr

record SlackWebhook =
  url :: SecretStr

text \<open>
  The state a method call runs in: the block itself (\<^verbatim>\<open>self\<close>), the allocation counter
  that gives each newly constructed object its identity, and the calls of \<^verbatim>\<open>send\<close> made
  so far (oldest first), each with the handle it was made on and its keyword arguments.
\<close>

type_synonym kwargs = "(string \<times> string) list"

record 'b env =
  self :: 'b
  next_id :: nat
  sent :: "(handle \<times> kwargs) list"

definition new_client :: "client \<Rightarrow> 'b env \<Rightarrow> handle \<times> 'b env" where
  "new_client c e = (\<lparr>ident = next_id e, obj = c\<rparr>, e\<lparr>next_id := Suc (next_id e)\<rparr>)"

text \<open>
  The client library is external: \<^verbatim>\<open>send\<close> is a parameter, a function from the client
  and the keyword arguments to either an exception or a response (a stubbed client is
  such a function). Calling it is recorded in the state.
\<close>

type_synonym transport = "client \<Rightarrow> kwargs \<Rightarrow> exn + response"

definition send :: "transport \<Rightarrow> handle \<Rightarrow> kwargs \<Rightarrow> 'b env \<Rightarrow> (exn + response) \<times> 'b env" where
  "send tr c kw e = (tr (obj c) kw, e\<lparr>sent := sent e @ [(c, kw)]\<rparr>)"

subsection \<open>The host framework and attribute lookup\<close>

text \<open>
  What the host framework provides is a parameter. \<open>base_raise_on_failure\<close> is the private
  attribute \<^verbatim>\<open>_raise_on_failure\<close> of the base class \<^verbatim>\<open>NotificationBlock\<close>: \<open>None\<close> on a
  host older than 2.17.2, which has no such attribute, otherwise its current value.
  \<open>exports_NotificationError\<close> says whether
  \<^verbatim>\<open>from prefect.blocks.abstract import NotificationError\<close> succeeds.
\<close>

record host =
  base_raise_on_failure :: "bool option"
  exports_NotificationError :: bool

datatype pyval = PyBool bool | PyMethod string

fun truthy :: "pyval \<Rightarrow> bool" where
  "truthy (PyBool b) = b"
| "truthy (PyMethod _) = True"

text \<open>
  The methods that the body of \<^verbatim>\<open>class SlackWebhook\<close> defines (lines 102 to 141), and the
  attributes inherited from the base class. Attribute lookup on a block follows the
  method resolution order: the class's own namespace, then the base class, then the
  default given to \<^verbatim>\<open>getattr\<close>. The host's flag is an attribute of the base class, as
  the comment on lines 114 to 116 says; the block's own dictionary holds its field
  (\<^verbatim>\<open>url\<close>) only and has no entry of that name.
\<close>

definition SlackWebhook_namespace :: "string \<Rightarrow> pyval option" where
  "SlackWebhook_namespace =
     map_of (map (\<lambda>n. (n, PyMethod n))
       [''get_client'', ''_raise_on_failure'', ''notify_async'', ''notify''])"

definition NotificationBlock_namespace :: "host \<Rightarrow> string \<Rightarrow> pyval option" where
  "NotificationBlock_namespace h name =
     (if name = ''_raise_on_failure'' then map_option PyBool (base_raise_on_failure h)
      else None)"

definition getattr :: "host \<Rightarrow> string \<Rightarrow> pyval \<Rightarrow> pyval" where
  "getattr h name dflt =
     (case SlackWebhook_namespace name of
        Some v \<Rightarrow> v
      | None \<Rightarrow> (case NotificationBlock_namespace h name of
                   Some v \<Rightarrow> v
                 | None \<Rightarrow> dflt))"

subsection \<open>SlackCredentials\<close>

text \<open>
  \<^verbatim>\<open>def get_client(self): return AsyncWebClient(token=self.token.get_secret_value())\<close>
\<close>

definition SlackCredentials_get_client ::
    "SlackCredentials env \<Rightarrow> handle \<times> SlackCredentials env" where
  "SlackCredentials_get_client e =
     new_client (AsyncWebClient (get_secret_value (token (self e)))) e"

subsection \<open>SlackWebhook\<close>

text \<open>
  \<^verbatim>\<open>def get_client(self, sync_client: bool = False)\<close>: the argument is \<open>None\<close> when the
  caller omits it, and then takes the default of the signature.
\<close>

definition SlackWebhook_get_client ::
    "bool option \<Rightarrow> SlackWebhook env \<Rightarrow> handle \<times> SlackWebhook env" where
  "SlackWebhook_get_client arg e =
     (let sync_client = (case arg of None \<Rightarrow> False | Some b \<Rightarrow> b)
      in if sync_client
         then new_client (WebhookClient (get_secret_value (url (self e)))) e
         else new_client (AsyncWebhookClient (get_secret_value (url (self e)))) e)"

text \<open>
  \<^verbatim>\<open>_raise_on_failure(self, response)\<close>, lines 113 to 124. The import of
  \<^verbatim>\<open>NotificationError\<close> falls back to \<^verbatim>\<open>Exception\<close>; the message is the f-string
  \<^verbatim>\<open>f"Failed to send message: {response.body}"\<close>.
\<close>

definition raise_on_failure :: "host \<Rightarrow> response \<Rightarrow> exn + unit" where
  "raise_on_failure h r =
     (if truthy (getattr h ''_raise_on_failure'' (PyBool False)) then
        (let NotificationError_cls =
               (if exports_NotificationError h then NotificationError else Exception)
         in if status_code r \<ge> 400
            then Inl (NotificationError_cls (''Failed to send message: '' @ body r))
            else Inr ())
      else Inr ())"

text \<open>
  The module-level coroutine \<^verbatim>\<open>_notify_async(obj, body, subject=None)\<close>, lines 53 to 58,
  as the value it produces when awaited. An exception raised by \<^verbatim>\<open>send\<close> ends the call.
\<close>

definition notify_async_fn ::
    "host \<Rightarrow> transport \<Rightarrow> string \<Rightarrow> string option \<Rightarrow> SlackWebhook env
      \<Rightarrow> (exn + unit) \<times> SlackWebhook env" where
  "notify_async_fn h tr body_text subject e =
     (let (client, e1) = SlackWebhook_get_client None e;
          (res, e2) = send tr client [(''text'', body_text)] e1
      in case res of
           Inl x \<Rightarrow> (Inl x, e2)
         | Inr r \<Rightarrow> (raise_on_failure h r, e2))"

text \<open>\<^verbatim>\<open>async def notify_async(self, body, subject=None)\<close>, lines 126 to 130.\<close>

definition notify_async ::
    "host \<Rightarrow> transport \<Rightarrow> string \<Rightarrow> string option \<Rightarrow> SlackWebhook env
      \<Rightarrow> (exn + unit) \<times> SlackWebhook env" where
  "notify_async h tr body_text subject e = notify_async_fn h tr body_text subject e"

text \<open>The blocking body of \<^verbatim>\<open>notify(self, body, subject=None)\<close>, lines 133 to 141.\<close>

definition notify ::
    "host \<Rightarrow> transport \<Rightarrow> string \<Rightarrow> string option \<Rightarrow> SlackWebhook env
      \<Rightarrow> (exn + unit) \<times> SlackWebhook env" where
  "notify h tr body_text subject e =
     (let (client, e1) = SlackWebhook_get_client (Some True) e;
          (res, e2) = send tr client [(''text'', body_text)] e1
      in case res of
           Inl x \<Rightarrow> (Inl x, e2)
         | Inr r \<Rightarrow> (raise_on_failure h r, e2))"

text \<open>
  Modelled from the spec: the decorator \<^verbatim>\<open>async_dispatch\<close> of
  \<^verbatim>\<open>prefect._internal.compatibility.async_dispatch\<close> is not among the sources. The spec
  says that a call made from a context that supports suspension runs the non-blocking
  path instead of the blocking one.
\<close>

definition async_dispatch :: "'f \<Rightarrow> 'f \<Rightarrow> bool \<Rightarrow> 'f" where
  "async_dispatch async_impl sync_fn in_async_context =
     (if in_async_context then async_impl else sync_fn)"

definition notify_dispatched ::
    "bool \<Rightarrow> host \<Rightarrow> transport \<Rightarrow> string \<Rightarrow> string option \<Rightarrow> SlackWebhook env
      \<Rightarrow> (exn + unit) \<times> SlackWebhook env" where
  "notify_dispatched in_async_context = async_dispatch notify_async_fn notify in_async_context"

subsection \<open>Example inputs\<close>

definition example_webhook :: "SlackWebhook env" where
  "example_webhook =
     \<lparr>self = \<lparr>url = SecretStr ''https://hooks.slack.com/XXX''\<rparr>, next_id = 0, sent = []\<rparr>"

definition example_credentials :: "SlackCredentials env" where
  "example_credentials = \<lparr>self = \<lparr>token = SecretStr ''xoxb-1''\<rparr>, next_id = 0, sent = []\<rparr>"

definition padded_credentials :: "SlackCredentials env" where
  "padded_credentials = \<lparr>self = \<lparr>token = SecretStr '' xoxb-1 ''\<rparr>, next_id = 0, sent = []\<rparr>"

definition older_host :: host where
  "older_host = \<lparr>base_raise_on_failure = None, exports_NotificationError = False\<rparr>"

definition stub :: "int \<Rightarrow> string \<Rightarrow> transport" where
  "stub code txt = (\<lambda>c kw. Inr \<lparr>status_code = code, body = txt\<rparr>)"

definition failing_stub :: "exn \<Rightarrow> transport" where
  "failing_stub x = (\<lambda>c kw. Inl x)"

section \<open>Properties\<close>

subsection \<open>Basic facts\<close>

lemma getattr_raise_on_failure: "getattr h ''_raise_on_failure'' d = PyMethod ''_raise_on_failure''"
  by (simp add: getattr_def SlackWebhook_namespace_def)

lemma raise_on_failure_eq:
  "raise_on_failure h r =
     (if status_code r \<ge> 400
      then Inl ((if exports_NotificationError h then NotificationError else Exception)
                  (''Failed to send message: '' @ body r))
      else Inr ())"
  by (simp add: raise_on_failure_def getattr_raise_on_failure)

lemma notify_eq:
  "notify h tr b s e =
     (let c = \<lparr>ident = next_id e, obj = WebhookClient (get_secret_value (url (self e)))\<rparr>;
          e2 = e\<lparr>next_id := Suc (next_id e), sent := sent e @ [(c, [(''text'', b)])]\<rparr>
      in case tr (obj c) [(''text'', b)] of
           Inl x \<Rightarrow> (Inl x, e2)
         | Inr r \<Rightarrow> (raise_on_failure h r, e2))"
  by (simp add: notify_def SlackWebhook_get_client_def new_client_def send_def Let_def
      split: sum.splits)

lemma notify_async_fn_eq:
  "notify_async_fn h tr b s e =
     (let c = \<lparr>ident = next_id e, obj = AsyncWebhookClient (get_secret_value (url (self e)))\<rparr>;
          e2 = e\<lparr>next_id := Suc (next_id e), sent := sent e @ [(c, [(''text'', b)])]\<rparr>
      in case tr (obj c) [(''text'', b)] of
           Inl x \<Rightarrow> (Inl x, e2)
         | Inr r \<Rightarrow> (raise_on_failure h r, e2))"
  by (simp add: notify_async_fn_def SlackWebhook_get_client_def new_client_def send_def Let_def
      split: sum.splits)

lemma notify_async_eq: "notify_async h tr b s e = notify_async_fn h tr b s e"
  by (simp add: notify_async_def)

lemma notify_dispatched_cases:
  "notify_dispatched True = notify_async_fn" "notify_dispatched False = notify"
  by (simp_all add: notify_dispatched_def async_dispatch_def)

text \<open>
  What the code does with a response, on every host: \<^verbatim>\<open>getattr\<close> finds the method
  \<^verbatim>\<open>_raise_on_failure\<close> of the class itself, which is true as a condition, so only the
  status code decides.
\<close>

lemma notify_raises_iff:
  assumes "tr (WebhookClient (get_secret_value (url (self e)))) [(''text'', b)] = Inr r"
  shows "(\<exists>x. fst (notify h tr b s e) = Inl x) \<longleftrightarrow> status_code r \<ge> 400"
  using assms by (simp add: notify_eq raise_on_failure_eq Let_def)

subsection \<open>Client handles\<close>

lemma dropWhile_keeps:
  assumes "xs \<noteq> []" and "\<not> P (hd xs)"
  shows "dropWhile P xs = xs"
  using assms by (cases xs) simp_all

lemma strip_unpadded:
  assumes "s \<noteq> []" and "\<not> isspace (of_char (hd s))" and "\<not> isspace (of_char (last s))"
  shows "strip s = s"
proof -
  have leading: "dropWhile (\<lambda>c. isspace (of_char c)) s = s"
    using assms(1,2) by (rule dropWhile_keeps)
  have nonempty: "rev s \<noteq> []"
    using assms(1) by simp
  have "\<not> isspace (of_char (hd (rev s)))"
    using assms(1,3) by (simp add: hd_rev)
  with nonempty have trailing: "dropWhile (\<lambda>c. isspace (of_char c)) (rev s) = rev s"
    by (rule dropWhile_keeps)
  show ?thesis
    unfolding strip_def leading trailing by simp
qed

text \<open>
  C4, as amended. For every non-empty secret token held by the credentials block,
  \<^verbatim>\<open>get_client()\<close> passes the unwrapped secret to the client constructor, and the token
  the returned handle holds is that value without its leading and trailing whitespace;
  constructing the handle sends nothing and changes nothing but the allocation of the
  handle itself.
\<close>

theorem credentials_get_client_token_stripped:
  assumes "get_secret_value (token (self e)) \<noteq> []"
  shows "obj (fst (SlackCredentials_get_client e)) = AsyncWebClient (get_secret_value (token (self e)))
       \<and> credential_of (obj (fst (SlackCredentials_get_client e))) =
           strip (get_secret_value (token (self e)))
       \<and> sent (snd (SlackCredentials_get_client e)) = sent e
       \<and> snd (SlackCredentials_get_client e) = e\<lparr>next_id := Suc (next_id e)\<rparr>"
  by (simp add: SlackCredentials_get_client_def new_client_def)

theorem credentials_get_client_token_stripped_witness:
  "get_secret_value (token (self example_credentials)) \<noteq> []
   \<and> obj (fst (SlackCredentials_get_client example_credentials)) = AsyncWebClient ''xoxb-1''
   \<and> credential_of (obj (fst (SlackCredentials_get_client example_credentials))) = ''xoxb-1''
   \<and> sent (snd (SlackCredentials_get_client example_credentials)) = []"
proof -
  have ne: "get_secret_value (token (self example_credentials)) \<noteq> []"
    by (simp add: example_credentials_def)
  have st: "strip ''xoxb-1'' = ''xoxb-1''"
    by (simp add: strip_def isspace_def)
  show ?thesis
    using ne st credentials_get_client_token_stripped [OF ne]
    by (simp add: example_credentials_def)
qed

text \<open>
  C4, as first stated, fails: the token \<^verbatim>\<open>' xoxb-1 '\<close> is not empty, and the handle
  built from it holds \<^verbatim>\<open>'xoxb-1'\<close>, which is not the unwrapped secret.
\<close>

theorem credentials_padded_token_counterexample:
  "get_secret_value (token (self padded_credentials)) \<noteq> []
   \<and> credential_of (obj (fst (SlackCredentials_get_client padded_credentials))) = ''xoxb-1''
   \<and> credential_of (obj (fst (SlackCredentials_get_client padded_credentials))) \<noteq>
       get_secret_value (token (self padded_credentials))"
  by (simp add: padded_credentials_def SlackCredentials_get_client_def new_client_def
      strip_def isspace_def)

text \<open>
  C5. For every secret URL held by the webhook block, the handle of
  \<^verbatim>\<open>get_client(sync_client=True)\<close> and the handle of \<^verbatim>\<open>get_client(sync_client=False)\<close>
  are bound to the same URL, the unwrapped secret.
\<close>

theorem webhook_get_client_same_url:
  "credential_of (obj (fst (SlackWebhook_get_client (Some True) e))) = get_secret_value (url (self e))
   \<and> credential_of (obj (fst (SlackWebhook_get_client (Some False) e))) = get_secret_value (url (self e))
   \<and> obj (fst (SlackWebhook_get_client (Some True) e)) = WebhookClient (get_secret_value (url (self e)))
   \<and> obj (fst (SlackWebhook_get_client (Some False) e)) = AsyncWebhookClient (get_secret_value (url (self e)))"
  by (simp add: SlackWebhook_get_client_def new_client_def)

text \<open>
  C9. Called with no argument, the webhook block's \<^verbatim>\<open>get_client\<close> takes
  \<^verbatim>\<open>sync_client = False\<close> and returns the asynchronous client.
\<close>

theorem webhook_get_client_default:
  "SlackWebhook_get_client None e = SlackWebhook_get_client (Some False) e
   \<and> obj (fst (SlackWebhook_get_client None e)) = AsyncWebhookClient (get_secret_value (url (self e)))
   \<and> is_async (obj (fst (SlackWebhook_get_client None e)))"
  by (simp add: SlackWebhook_get_client_def new_client_def)

text \<open>
  C8. Every call of \<^verbatim>\<open>get_client\<close> (on either block) and every call of \<^verbatim>\<open>notify\<close>
  constructs a new handle from the stored secret: of two successive calls, the second
  handle has an identity different from the first and from every identity allocated
  before, and both are built from the same secret value.
\<close>

theorem handles_are_fresh:
  "(let (c1, e1) = SlackCredentials_get_client e; (c2, e2) = SlackCredentials_get_client e1
    in ident c1 \<noteq> ident c2 \<and> next_id e \<le> ident c1 \<and> next_id e \<le> ident c2
       \<and> obj c1 = AsyncWebClient (get_secret_value (token (self e))) \<and> obj c2 = obj c1)
   \<and> (let (c1, w1) = SlackWebhook_get_client a w; (c2, w2) = SlackWebhook_get_client a w1
      in ident c1 \<noteq> ident c2 \<and> next_id w \<le> ident c1 \<and> next_id w \<le> ident c2
         \<and> credential_of (obj c1) = get_secret_value (url (self w)) \<and> obj c2 = obj c1)
   \<and> map fst (sent (snd (notify h tr b2 s2 (snd (notify h tr b1 s1 w))))) =
       map fst (sent w) @
         [\<lparr>ident = next_id w, obj = WebhookClient (get_secret_value (url (self w)))\<rparr>,
          \<lparr>ident = Suc (next_id w), obj = WebhookClient (get_secret_value (url (self w)))\<rparr>]
   \<and> map fst (sent (snd (notify_async h tr b2 s2 (snd (notify_async h tr b1 s1 w))))) =
       map fst (sent w) @
         [\<lparr>ident = next_id w, obj = AsyncWebhookClient (get_secret_value (url (self w)))\<rparr>,
          \<lparr>ident = Suc (next_id w), obj = AsyncWebhookClient (get_secret_value (url (self w)))\<rparr>]"
proof -
  have creds: "(let (c1, e1) = SlackCredentials_get_client e; (c2, e2) = SlackCredentials_get_client e1
    in ident c1 \<noteq> ident c2 \<and> next_id e \<le> ident c1 \<and> next_id e \<le> ident c2
       \<and> obj c1 = AsyncWebClient (get_secret_value (token (self e))) \<and> obj c2 = obj c1)"
    by (simp add: SlackCredentials_get_client_def new_client_def)
  have hook: "(let (c1, w1) = SlackWebhook_get_client a w; (c2, w2) = SlackWebhook_get_client a w1
      in ident c1 \<noteq> ident c2 \<and> next_id w \<le> ident c1 \<and> next_id w \<le> ident c2
         \<and> credential_of (obj c1) = get_secret_value (url (self w)) \<and> obj c2 = obj c1)"
    by (simp add: SlackWebhook_get_client_def new_client_def Let_def split: option.splits)
  have blocking: "map fst (sent (snd (notify h tr b2 s2 (snd (notify h tr b1 s1 w))))) =
       map fst (sent w) @
         [\<lparr>ident = next_id w, obj = WebhookClient (get_secret_value (url (self w)))\<rparr>,
          \<lparr>ident = Suc (next_id w), obj = WebhookClient (get_secret_value (url (self w)))\<rparr>]"
    by (simp add: notify_eq Let_def split: sum.splits)
  have suspending: "map fst (sent (snd (notify_async h tr b2 s2 (snd (notify_async h tr b1 s1 w))))) =
       map fst (sent w) @
         [\<lparr>ident = next_id w, obj = AsyncWebhookClient (get_secret_value (url (self w)))\<rparr>,
          \<lparr>ident = Suc (next_id w), obj = AsyncWebhookClient (get_secret_value (url (self w)))\<rparr>]"
    by (simp add: notify_async_eq notify_async_fn_eq Let_def split: sum.splits)
  from creds hook blocking suspending show ?thesis by blast
qed

text \<open>
  C10. No public operation changes the block: after \<^verbatim>\<open>get_client\<close> or \<^verbatim>\<open>notify\<close>,
  whether it returned or raised, the credentials block's token and the webhook block's
  URL are what they were.
\<close>

theorem blocks_unchanged:
  "self (snd (SlackCredentials_get_client e)) = self e
   \<and> token (self (snd (SlackCredentials_get_client e))) = token (self e)
   \<and> self (snd (SlackWebhook_get_client a w)) = self w
   \<and> self (snd (notify h tr b s w)) = self w
   \<and> self (snd (notify_async h tr b s w)) = self w
   \<and> url (self (snd (notify h tr b s w))) = url (self w)
   \<and> url (self (snd (notify_async h tr b s w))) = url (self w)"
proof -
  have 1: "self (snd (SlackCredentials_get_client e)) = self e"
    by (simp add: SlackCredentials_get_client_def new_client_def)
  have 2: "self (snd (SlackWebhook_get_client a w)) = self w"
    by (simp add: SlackWebhook_get_client_def new_client_def Let_def)
  have 3: "self (snd (notify h tr b s w)) = self w"
    by (simp add: notify_eq Let_def split: sum.splits)
  have 4: "self (snd (notify_async h tr b s w)) = self w"
    by (simp add: notify_async_eq notify_async_fn_eq Let_def split: sum.splits)
  from 1 2 3 4 show ?thesis by simp
qed

subsection \<open>Notifications\<close>

text \<open>
  C2. For every body and every subject, the blocking and the suspending form of
  \<^verbatim>\<open>notify\<close> call \<^verbatim>\<open>send\<close> with the body as its only keyword argument, \<^verbatim>\<open>text\<close>; the
  subject is not part of what is sent, and the call does the same for every subject.
\<close>

theorem notify_sends_body_only:
  "sent (snd (notify h tr b s e)) =
     sent e @ [(\<lparr>ident = next_id e, obj = WebhookClient (get_secret_value (url (self e)))\<rparr>,
                [(''text'', b)])]
   \<and> sent (snd (notify_async h tr b s e)) =
     sent e @ [(\<lparr>ident = next_id e, obj = AsyncWebhookClient (get_secret_value (url (self e)))\<rparr>,
                [(''text'', b)])]
   \<and> notify h tr b s e = notify h tr b s' e
   \<and> notify_async h tr b s e = notify_async h tr b s' e"
proof -
  have blocking: "sent (snd (notify h tr b s e)) =
     sent e @ [(\<lparr>ident = next_id e, obj = WebhookClient (get_secret_value (url (self e)))\<rparr>,
                [(''text'', b)])]"
    by (simp add: notify_eq Let_def split: sum.splits)
  have suspending: "sent (snd (notify_async h tr b s e)) =
     sent e @ [(\<lparr>ident = next_id e, obj = AsyncWebhookClient (get_secret_value (url (self e)))\<rparr>,
                [(''text'', b)])]"
    by (simp add: notify_async_eq notify_async_fn_eq Let_def split: sum.splits)
  have subj: "notify h tr b s e = notify h tr b s' e"
    by (simp add: notify_eq)
  have subj_async: "notify_async h tr b s e = notify_async h tr b s' e"
    by (simp add: notify_async_eq notify_async_fn_eq)
  from blocking suspending subj subj_async show ?thesis by blast
qed

text \<open>
  C3. For every webhook block, body and subject, and a stubbed client that answers the
  blocking and the suspending client alike, the blocking path and the suspending path of
  \<^verbatim>\<open>notify\<close> end the same way: both return, or both raise the same exception with the
  same content.
\<close>

theorem notify_paths_agree:
  assumes "tr (WebhookClient (get_secret_value (url (self e)))) [(''text'', b)] =
           tr (AsyncWebhookClient (get_secret_value (url (self e)))) [(''text'', b)]"
  shows "fst (notify h tr b s e) = fst (notify_async h tr b s e)"
  using assms
  by (simp add: notify_eq notify_async_eq notify_async_fn_eq Let_def split: sum.splits)

theorem notify_paths_agree_witness:
  "stub 404 ''invalid_payload'' (WebhookClient ''https://hooks.slack.com/XXX'') [(''text'', ''hi'')] =
     stub 404 ''invalid_payload'' (AsyncWebhookClient ''https://hooks.slack.com/XXX'') [(''text'', ''hi'')]
   \<and> fst (notify older_host (stub 404 ''invalid_payload'') ''hi'' None example_webhook) =
     fst (notify_async older_host (stub 404 ''invalid_payload'') ''hi'' None example_webhook)"
  using notify_paths_agree [where tr = "stub 404 ''invalid_payload''" and e = example_webhook
          and b = "''hi''" and h = older_host and s = None]
  by (simp add: stub_def)

text \<open>
  C6. For every webhook block whose stubbed client answers with status code 200,
  \<^verbatim>\<open>notify\<close> returns normally in the blocking and in the suspending form, whatever the
  host provides.
\<close>

theorem notify_status_200_returns:
  assumes "tr (WebhookClient (get_secret_value (url (self e)))) [(''text'', b)] = Inr ra"
    and "status_code ra = 200"
    and "tr (AsyncWebhookClient (get_secret_value (url (self e)))) [(''text'', b)] = Inr rb"
    and "status_code rb = 200"
  shows "fst (notify h tr b s e) = Inr () \<and> fst (notify_async h tr b s e) = Inr ()"
  using assms
  by (simp add: notify_eq notify_async_eq notify_async_fn_eq raise_on_failure_eq Let_def)

theorem notify_status_200_returns_witness:
  "stub 200 ''ok'' (WebhookClient ''https://hooks.slack.com/XXX'') [(''text'', ''hi'')] =
     Inr \<lparr>status_code = 200, body = ''ok''\<rparr>
   \<and> fst (notify \<lparr>base_raise_on_failure = Some True, exports_NotificationError = True\<rparr>
          (stub 200 ''ok'') ''hi'' None example_webhook) = Inr ()
   \<and> fst (notify_async \<lparr>base_raise_on_failure = Some True, exports_NotificationError = True\<rparr>
          (stub 200 ''ok'') ''hi'' None example_webhook) = Inr ()"
  using notify_status_200_returns [where tr = "stub 200 ''ok''" and e = example_webhook
          and b = "''hi''" and s = None
          and ra = "\<lparr>status_code = 200, body = ''ok''\<rparr>"
          and rb = "\<lparr>status_code = 200, body = ''ok''\<rparr>"
          and h = "\<lparr>base_raise_on_failure = Some True, exports_NotificationError = True\<rparr>"]
  by (simp add: stub_def)

text \<open>
  C7. Every call of \<^verbatim>\<open>notify\<close>, in either form, calls \<^verbatim>\<open>send\<close> exactly once, and an
  exception raised by \<^verbatim>\<open>send\<close> reaches the caller as it is.
\<close>

theorem notify_single_attempt:
  "length (sent (snd (notify h tr b s e))) = Suc (length (sent e))
   \<and> length (sent (snd (notify_async h tr b s e))) = Suc (length (sent e))
   \<and> (tr (WebhookClient (get_secret_value (url (self e)))) [(''text'', b)] = Inl x
        \<longrightarrow> fst (notify h tr b s e) = Inl x)
   \<and> (tr (AsyncWebhookClient (get_secret_value (url (self e)))) [(''text'', b)] = Inl x
        \<longrightarrow> fst (notify_async h tr b s e) = Inl x)"
proof -
  have n1: "length (sent (snd (notify h tr b s e))) = Suc (length (sent e))"
    by (simp add: notify_eq Let_def split: sum.splits)
  have n2: "length (sent (snd (notify_async h tr b s e))) = Suc (length (sent e))"
    by (simp add: notify_async_eq notify_async_fn_eq Let_def split: sum.splits)
  have p1: "tr (WebhookClient (get_secret_value (url (self e)))) [(''text'', b)] = Inl x
        \<longrightarrow> fst (notify h tr b s e) = Inl x"
    by (simp add: notify_eq Let_def)
  have p2: "tr (AsyncWebhookClient (get_secret_value (url (self e)))) [(''text'', b)] = Inl x
        \<longrightarrow> fst (notify_async h tr b s e) = Inl x"
    by (simp add: notify_async_eq notify_async_fn_eq Let_def)
  from n1 n2 p1 p2 show ?thesis by blast
qed

theorem notify_single_attempt_witness:
  "failing_stub (TransportError ''timeout'') (WebhookClient ''https://hooks.slack.com/XXX'')
       [(''text'', ''hi'')] = Inl (TransportError ''timeout'')
   \<and> fst (notify older_host (failing_stub (TransportError ''timeout'')) ''hi'' None example_webhook)
       = Inl (TransportError ''timeout'')
   \<and> fst (notify_async older_host (failing_stub (TransportError ''timeout'')) ''hi'' None
            example_webhook) = Inl (TransportError ''timeout'')
   \<and> length (sent (snd (notify older_host (failing_stub (TransportError ''timeout'')) ''hi'' None
                         example_webhook))) = 1"
  using notify_single_attempt [of older_host "failing_stub (TransportError ''timeout'')" "''hi''"
          None example_webhook "TransportError ''timeout''"]
  by (simp add: failing_stub_def example_webhook_def)

text \<open>
  C1. On a host older than 2.17.2, with neither the attribute \<^verbatim>\<open>_raise_on_failure\<close> on
  the base class nor \<^verbatim>\<open>NotificationError\<close> to import, and a stubbed client that answers
  404 with body \<^verbatim>\<open>invalid_payload\<close>, \<^verbatim>\<open>notify("hi")\<close> raises in both forms: the
  condition of line 117 reads the method \<^verbatim>\<open>_raise_on_failure\<close> that line 113 defines on
  the class itself, in place of the attribute of the base class.
\<close>

theorem notify_older_host_404_raises:
  "fst (notify older_host (stub 404 ''invalid_payload'') ''hi'' None example_webhook) =
     Inl (Exception ''Failed to send message: invalid_payload'')
   \<and> fst (notify_async older_host (stub 404 ''invalid_payload'') ''hi'' None example_webhook) =
     Inl (Exception ''Failed to send message: invalid_payload'')
   \<and> base_raise_on_failure older_host = None"
  by (simp add: notify_def notify_async_def notify_async_fn_def SlackWebhook_get_client_def
      new_client_def send_def raise_on_failure_def getattr_def SlackWebhook_namespace_def
      older_host_def stub_def example_webhook_def)

end
